theory Spec2Isabelle
  imports Complex_Main "HOL-Library.Word"
begin

section \<open>JavaScript values used by the frontend\<close>

text \<open>
  A JavaScript string is a sequence of 16-bit code units. ASCII literals of the source
  are written \<open>js ''...''\<close>.
\<close>

type_synonym jsstring = "16 word list"

definition js :: "string \<Rightarrow> jsstring" where
  "js s = map of_char s"

text \<open>
  What a \<open>catch\<close> clause or a rejected promise carries: an instance of \<open>Error\<close>
  with its message, or any other value.
\<close>

datatype thrown = ErrorObject jsstring | OtherValue

text \<open>A settled promise: rejected with a reason (\<open>Inl\<close>) or fulfilled with a value.\<close>

type_synonym 'a promise = "thrown + 'a"

section \<open>The forecast hook (src/frontend/src/useForecast.ts)\<close>

text \<open>
  The interfaces of lines 3 to 35. A JavaScript \<open>number\<close> is carried as a rational
  (the hook never computes with one); \<open>T | null\<close> and an optional field are options.
\<close>

record PossibleItem =
  message :: jsstring
  date_range :: jsstring

record DetailedItem =
  start_time :: jsstring
  end_time :: jsstring
  duration_hours :: rat
  snow_inches :: rat
  category :: jsstring
  lead_hours :: rat

record FinalCallItem =
  message :: jsstring
  start_time :: jsstring
  end_time :: jsstring
  duration_hours :: rat
  snow_inches :: rat
  category :: jsstring

record ForecastResponse =
  possible :: "PossibleItem option"
  detailed :: "DetailedItem list"
  finalCall :: "FinalCallItem option"
  last_updated :: "jsstring option"
  runs_used :: rat
  lat :: "rat option"
  lon :: "rat option"
  message :: "jsstring option"

text \<open>
  What the hook observes of the \<open>Response\<close> that \<open>fetch\<close> fulfils with: \<open>r.ok\<close>,
  \<open>r.status\<close>, and what \<open>await r.text()\<close> and \<open>await r.json()\<close> settle to. The parsed
  JSON has type \<open>'j\<close> (\<open>ForecastResponse\<close> in the source) and may be \<open>null\<close>.
\<close>

record 'j http_response =
  ok :: bool
  status :: nat
  text_result :: "jsstring promise"
  json_result :: "'j option promise"

text \<open>The three \<open>useState\<close> cells; \<open>useForecast\<close> is their initial value.\<close>

record 'j hook_state =
  data :: "'j option"
  error :: "jsstring option"
  loading :: bool

definition useForecast :: "'j hook_state" where
  "useForecast = \<lparr>data = None, error = None, loading = False\<rparr>"

text \<open>The decimal digits of a status code, as the template literal prints it.\<close>

fun digit_string :: "nat \<Rightarrow> jsstring" where
  "digit_string n =
     (if n < 10 then [of_nat (48 + n)]
      else digit_string (n div 10) @ [of_nat (48 + n mod 10)])"

text \<open>
  The body of the \<open>try\<close> block (lines 46 to 57), given what \<open>fetch\<close> settles to: the
  parsed JSON handed to \<open>setData\<close>, or the value the \<open>catch\<close> clause receives. The
  request URL is built from constants and numbers and cannot throw.
\<close>

definition try_block :: "'j http_response promise \<Rightarrow> 'j option promise" where
  "try_block fetched =
     (case fetched of
        Inl e \<Rightarrow> Inl e
      | Inr r \<Rightarrow>
          if \<not> ok r then
            (case text_result r of
               Inl e \<Rightarrow> Inl e
             | Inr t \<Rightarrow>
                 Inl (ErrorObject (if t \<noteq> [] then t else js ''HTTP '' @ digit_string (status r))))
          else json_result r)"

text \<open>
  A call of \<open>fetchForecast\<close> touches the state in two uninterrupted segments: lines 43
  and 44 run when it is called, up to the first \<open>await\<close>; lines 58 to 63 run when its
  last \<open>await\<close> has settled. Between the two it is suspended and the state is whatever
  other code makes of it.
\<close>

definition call_start :: "'j hook_state \<Rightarrow> 'j hook_state" where
  "call_start s = s\<lparr>loading := True, error := None\<rparr>"

definition call_finish :: "'j http_response promise \<Rightarrow> 'j hook_state \<Rightarrow> 'j hook_state" where
  "call_finish fetched s =
     (case try_block fetched of
        Inr json \<Rightarrow> s\<lparr>data := json\<rparr>
      | Inl e \<Rightarrow>
          s\<lparr>error := Some (case e of ErrorObject m \<Rightarrow> m | OtherValue \<Rightarrow> js ''Request failed''),
            data := None\<rparr>)
     \<lparr>loading := False\<rparr>"

text \<open>One call that runs from its first line to its last with nothing in between.\<close>

definition fetchForecast :: "'j http_response promise \<Rightarrow> 'j hook_state \<Rightarrow> 'j hook_state" where
  "fetchForecast fetched s = call_finish fetched (call_start s)"

text \<open>
  The hook over time. \<open>Call\<close>: \<open>fetchForecast\<close> is called (the button of LocationBar
  stays enabled while a call is pending). \<open>Settle fetched\<close>: one pending call resumes
  with what its request settled to and runs to its end. \<open>run_events\<close> threads the state
  through a sequence of events, counting the pending calls; a \<open>Settle\<close> with no call
  pending is no execution (\<open>None\<close>).
\<close>

datatype 'j event = Call | Settle "'j http_response promise"

fun run_events :: "'j event list \<Rightarrow> nat \<Rightarrow> 'j hook_state \<Rightarrow> 'j hook_state option" where
  "run_events [] pending s = Some s"
| "run_events (Call # es) pending s = run_events es (Suc pending) (call_start s)"
| "run_events (Settle fetched # es) 0 s = None"
| "run_events (Settle fetched # es) (Suc pending) s = run_events es pending (call_finish fetched s)"

text \<open>A response body and two requests to evaluate the hook on.\<close>

definition sample_response :: ForecastResponse where
  "sample_response =
     \<lparr>possible = None, detailed = [], finalCall = None, last_updated = None, runs_used = 0,
      ForecastResponse.lat = None, ForecastResponse.lon = None,
      message = Some (js ''No winter weather indicated'')\<rparr>"

definition sample_success :: "ForecastResponse http_response promise" where
  "sample_success =
     Inr \<lparr>ok = True, status = 200, text_result = Inr (js ''{}''),
          json_result = Inr (Some sample_response)\<rparr>"

definition sample_failure :: "ForecastResponse http_response promise" where
  "sample_failure =
     Inr \<lparr>ok = False, status = 500, text_result = Inr [], json_result = Inl OtherValue\<rparr>"

section \<open>The station table (src/frontend/src/metarStations.ts)\<close>

record MetarStation =
  icao :: jsstring
  name :: jsstring
  lat :: rat
  lon :: rat

definition METAR_STATIONS :: "MetarStation list" where
  "METAR_STATIONS =
    [\<lparr>icao = js ''KDOV'', name = js ''Dover AFB, DE'', lat = 39.1295, lon = - 75.466\<rparr>,
     \<lparr>icao = js ''KPHL'', name = js ''Philadelphia, PA'', lat = 39.8729, lon = - 75.2437\<rparr>,
     \<lparr>icao = js ''KBWI'', name = js ''Baltimore (BWI), MD'', lat = 39.1754, lon = - 76.6683\<rparr>,
     \<lparr>icao = js ''KDCA'', name = js ''Washington Reagan, DC'', lat = 38.8521, lon = - 77.0377\<rparr>,
     \<lparr>icao = js ''KIAD'', name = js ''Washington Dulles, VA'', lat = 38.9445, lon = - 77.4558\<rparr>,
     \<lparr>icao = js ''KNYC'', name = js ''New York (Central Park)'', lat = 40.779, lon = - 73.9692\<rparr>,
     \<lparr>icao = js ''KJFK'', name = js ''New York JFK'', lat = 40.6398, lon = - 73.7789\<rparr>,
     \<lparr>icao = js ''KBOS'', name = js ''Boston, MA'', lat = 42.3656, lon = - 71.0096\<rparr>,
     \<lparr>icao = js ''KORD'', name = js ''Chicago O'Hare, IL'', lat = 41.9742, lon = - 87.9073\<rparr>,
     \<lparr>icao = js ''KDEN'', name = js ''Denver, CO'', lat = 39.8617, lon = - 104.6731\<rparr>]"

text \<open>
  \<open>String.prototype.trim\<close> removes the code units of ECMAScript's WhiteSpace and
  LineTerminator productions from both ends.
\<close>

definition is_white_space :: "16 word \<Rightarrow> bool" where
  "is_white_space c \<longleftrightarrow>
     c \<in> set [0x0009, 0x000A, 0x000B, 0x000C, 0x000D, 0x0020, 0x00A0, 0x1680, 0x2028, 0x2029,
              0x202F, 0x205F, 0x3000, 0xFEFF]
     \<or> (0x2000 \<le> c \<and> c \<le> 0x200A)"

definition trim :: "jsstring \<Rightarrow> jsstring" where
  "trim s = rev (dropWhile is_white_space (rev (dropWhile is_white_space s)))"

text \<open>
  \<open>getStationByIcao\<close> (lines 28 to 31); its argument is named \<open>code\<close> here,
  \<open>icao\<close> being the field. \<open>String.prototype.toUpperCase\<close> is the engine's Unicode
  case mapping, which is not part of the repository: it is a parameter.
\<close>

definition getStationByIcao :: "(jsstring \<Rightarrow> jsstring) \<Rightarrow> jsstring \<Rightarrow> MetarStation option" where
  "getStationByIcao toUpperCase code =
     (let upper = toUpperCase (trim code)
      in find (\<lambda>s. icao s = upper) METAR_STATIONS)"

text \<open>The case mapping restricted to ASCII letters, an instance of the parameter.\<close>

definition ascii_upper_unit :: "16 word \<Rightarrow> 16 word" where
  "ascii_upper_unit c = (if 0x61 \<le> c \<and> c \<le> 0x7A then c - 0x20 else c)"

definition ascii_toUpperCase :: "jsstring \<Rightarrow> jsstring" where
  "ascii_toUpperCase s = map ascii_upper_unit s"

section \<open>The backend's Run Cache and Tier Classifier\<close>

text \<open>
  The backend (a Python service, \<open>main.py\<close> of src/backend/README.md) is not among the
  sources. The two components below follow the words of the specification.
\<close>

text \<open>
  Modelled from the spec: the error conditions of the GFS Fetcher (section 4.2), whose
  code is missing: network failure, decode failure, run not yet published.
\<close>

datatype fetch_error = NetworkFailure | DecodeFailure | NotYetPublished

text \<open>
  Modelled from the spec: the key of the Run Cache (section 4.1), whose code is missing:
  (run id, lead hour, bounding box), that is the run's timestamp, the lead hour, and the
  box as four coordinates.
\<close>

type_synonym bbox = "rat \<times> rat \<times> rat \<times> rat"

type_synonym cache_key = "int \<times> nat \<times> bbox"

text \<open>
  Modelled from the spec: the state of the Run Cache (section 4.1), whose code is missing.
  Each entry holds the fetched data (\<open>'g\<close>, a Grid Point set) and its recorded fetch
  time, in minutes; \<open>ttl\<close> is the configured time-to-live in minutes. \<open>downloads\<close> logs
  the keys handed to the Fetcher, the latest last.
\<close>

record 'g run_cache =
  entries :: "cache_key \<rightharpoonup> 'g \<times> rat"
  ttl :: rat
  downloads :: "cache_key list"

text \<open>
  Modelled from the spec: \<open>get_or_fetch\<close> of the Run Cache (section 4.1), whose code is
  missing. "Returns cached data if present and not expired; otherwise delegates to the
  Fetcher, stores the result with a recorded fetch time, and returns it"; "entries older
  than a configurable TTL are treated as expired and refetched on next access; expired
  entries are not proactively purged but replaced lazily"; "if the Fetcher fails, the cache
  entry is not populated and the failure propagates to the caller". \<open>fetch\<close> is the
  Fetcher: what the remote archive answers for a key at a time. \<open>now\<close> is the clock.
\<close>

definition get_or_fetch ::
  "(rat \<Rightarrow> cache_key \<Rightarrow> fetch_error + 'g) \<Rightarrow> rat \<Rightarrow> cache_key \<Rightarrow> 'g run_cache
     \<Rightarrow> (fetch_error + 'g) \<times> 'g run_cache" where
  "get_or_fetch fetch now key cache =
     (let refetch =
            (let asked = cache\<lparr>downloads := downloads cache @ [key]\<rparr>
             in case fetch now key of
                  Inl failure \<Rightarrow> (Inl failure, asked)
                | Inr grid \<Rightarrow> (Inr grid, asked\<lparr>entries := (entries asked)(key \<mapsto> (grid, now))\<rparr>))
      in case entries cache key of
           None \<Rightarrow> refetch
         | Some (grid, fetched_at) \<Rightarrow>
             if now - fetched_at > ttl cache then refetch else (Inr grid, cache))"





text \<open>A cache, a remote archive and a window to evaluate the backend's components on.\<close>

definition sample_key :: cache_key where
  "sample_key = (1, 6, 0, 1, 0, 1)"

definition sample_other_key :: cache_key where
  "sample_other_key = (2, 6, 0, 1, 0, 1)"

definition sample_fetch :: "rat \<Rightarrow> cache_key \<Rightarrow> fetch_error + nat" where
  "sample_fetch now key = (if now < 61 then Inr 7 else Inr 8)"

definition sample_cache :: "nat run_cache" where
  "sample_cache = \<lparr>entries = [sample_other_key \<mapsto> (3, - 1000)], ttl = 60, downloads = []\<rparr>"


section \<open>Properties of the station lookup\<close>

lemma last_dropWhile_nonempty:
  "dropWhile P xs \<noteq> [] \<Longrightarrow> last (dropWhile P xs) = last xs"
  by (induction xs) (auto split: if_splits)

text \<open>A string that does not start or end with white space is left alone by \<open>trim\<close>.\<close>

lemma trim_fixed:
  "s = [] \<or> (\<not> is_white_space (hd s) \<and> \<not> is_white_space (last s)) \<Longrightarrow> trim s = s"
proof (cases "s = []")
  case True
  then show ?thesis by (simp add: trim_def)
next
  case False
  assume "s = [] \<or> (\<not> is_white_space (hd s) \<and> \<not> is_white_space (last s))"
  with False have h: "\<not> is_white_space (hd s)" and l: "\<not> is_white_space (last s)"
    by simp_all
  have a: "dropWhile is_white_space s = s"
    using h by (simp add: dropWhile_eq_self_iff)
  have "\<not> is_white_space (hd (rev s))"
    using l False by (simp add: hd_rev)
  then have b: "dropWhile is_white_space (rev s) = rev s"
    by (simp add: dropWhile_eq_self_iff)
  show ?thesis by (simp add: trim_def a b)
qed

text \<open>What \<open>trim\<close> returns does not start or end with white space.\<close>

lemma trim_trimmed:
  "trim s = [] \<or> (\<not> is_white_space (hd (trim s)) \<and> \<not> is_white_space (last (trim s)))"
proof (cases "trim s = []")
  case True
  then show ?thesis by simp
next
  case False
  let ?t = "dropWhile is_white_space s"
  let ?u = "dropWhile is_white_space (rev ?t)"
  from False have u: "?u \<noteq> []" by (simp add: trim_def)
  have t: "?t \<noteq> []"
  proof
    assume "?t = []"
    then have "?u = []" by (simp only: rev.simps dropWhile.simps)
    with u show False by (simp only: not_True_eq_False simp_thms)
  qed
  have "last ?u = last (rev ?t)" using u by (rule last_dropWhile_nonempty)
  also have "\<dots> = hd ?t" using t by (simp add: last_rev)
  finally have "\<not> is_white_space (last ?u)"
    using t hd_dropWhile [of is_white_space s] by simp
  moreover have "\<not> is_white_space (hd ?u)" using u by (rule hd_dropWhile)
  ultimately show ?thesis using u by (simp add: trim_def hd_rev last_rev)
qed

lemma trim_idem: "trim (trim s) = trim s"
  using trim_trimmed [of s] by (rule trim_fixed)

lemma trim_map:
  assumes "\<And>c. is_white_space (f c) = is_white_space c"
  shows "trim (map f s) = map f (trim s)"
proof -
  have "is_white_space \<circ> f = is_white_space" using assms by (simp add: fun_eq_iff)
  then show ?thesis by (simp add: trim_def dropWhile_map rev_map)
qed

lemma ascii_upper_unit_white_space:
  "is_white_space (ascii_upper_unit c) = is_white_space c"
  unfolding ascii_upper_unit_def is_white_space_def
  by (auto simp: word_le_nat_alt unat_sub word_unat_eq_iff)

lemma ascii_upper_unit_idem: "ascii_upper_unit (ascii_upper_unit c) = ascii_upper_unit c"
  unfolding ascii_upper_unit_def
  by (auto simp: word_le_nat_alt unat_sub)

lemma ascii_toUpperCase_idem: "ascii_toUpperCase (ascii_toUpperCase x) = ascii_toUpperCase x"
  by (simp add: ascii_toUpperCase_def ascii_upper_unit_idem)

lemma ascii_toUpperCase_trimmed:
  "trim (ascii_toUpperCase (trim x)) = ascii_toUpperCase (trim x)"
  by (simp add: ascii_toUpperCase_def trim_map ascii_upper_unit_white_space trim_idem)

text \<open>
  C8. \<open>getStationByIcao\<close> is insensitive to surrounding white space and to case: for
  every string \<open>s\<close>, \<open>getStationByIcao(s) = getStationByIcao(s.trim().toUpperCase())\<close>;
  it returns the first station of \<open>METAR_STATIONS\<close> whose \<open>icao\<close> equals
  \<open>s.trim().toUpperCase()\<close> when there is one, and \<open>undefined\<close> otherwise. The two
  hypotheses are what the proof uses of the engine's \<open>toUpperCase\<close>: upper-casing twice
  is upper-casing once, and upper-casing a trimmed string gives a trimmed string.
\<close>

theorem getStationByIcao_normalises:
  assumes up_idem: "\<And>x. toUpperCase (toUpperCase x) = toUpperCase x"
    and up_trimmed: "\<And>x. trim (toUpperCase (trim x)) = toUpperCase (trim x)"
  shows "getStationByIcao toUpperCase s = getStationByIcao toUpperCase (toUpperCase (trim s))
    \<and> (getStationByIcao toUpperCase s = Some st \<longleftrightarrow>
         (\<exists>i<length METAR_STATIONS. METAR_STATIONS ! i = st \<and> icao st = toUpperCase (trim s)
            \<and> (\<forall>j<i. icao (METAR_STATIONS ! j) \<noteq> toUpperCase (trim s))))
    \<and> (getStationByIcao toUpperCase s = None \<longleftrightarrow>
         \<not> (\<exists>st'. st' \<in> set METAR_STATIONS \<and> icao st' = toUpperCase (trim s)))"
proof -
  have "toUpperCase (trim (toUpperCase (trim s))) = toUpperCase (trim s)"
    by (simp only: up_trimmed up_idem)
  then have a: "getStationByIcao toUpperCase s
      = getStationByIcao toUpperCase (toUpperCase (trim s))"
    by (simp add: getStationByIcao_def)
  have b: "getStationByIcao toUpperCase s = Some st \<longleftrightarrow>
         (\<exists>i<length METAR_STATIONS. METAR_STATIONS ! i = st \<and> icao st = toUpperCase (trim s)
            \<and> (\<forall>j<i. icao (METAR_STATIONS ! j) \<noteq> toUpperCase (trim s)))"
    unfolding getStationByIcao_def Let_def find_Some_iff by auto
  have c: "getStationByIcao toUpperCase s = None \<longleftrightarrow>
         \<not> (\<exists>st'. st' \<in> set METAR_STATIONS \<and> icao st' = toUpperCase (trim s))"
    unfolding getStationByIcao_def Let_def find_None_iff by simp
  from a b c show ?thesis by (simp only: simp_thms)
qed

text \<open>
  Witness of C8: the ASCII case mapping satisfies both hypotheses, and with it
  \<open>" kdov  "\<close> finds the station KDOV, as its trimmed upper-case form does, while
  \<open>"kxyz"\<close> finds none.
\<close>

theorem getStationByIcao_normalises_witness:
  "(\<forall>x. ascii_toUpperCase (ascii_toUpperCase x) = ascii_toUpperCase x)
   \<and> (\<forall>x. trim (ascii_toUpperCase (trim x)) = ascii_toUpperCase (trim x))
   \<and> getStationByIcao ascii_toUpperCase (js '' kdov  '')
       = getStationByIcao ascii_toUpperCase (ascii_toUpperCase (trim (js '' kdov  '')))
   \<and> getStationByIcao ascii_toUpperCase (js '' kdov  '')
       = Some \<lparr>icao = js ''KDOV'', name = js ''Dover AFB, DE'', lat = 39.1295, lon = - 75.466\<rparr>
   \<and> getStationByIcao ascii_toUpperCase (js ''kxyz'') = None"
proof -
  note inst = getStationByIcao_normalises
    [of ascii_toUpperCase, OF ascii_toUpperCase_idem ascii_toUpperCase_trimmed]
  have 1: "getStationByIcao ascii_toUpperCase (js '' kdov  '')
       = getStationByIcao ascii_toUpperCase (ascii_toUpperCase (trim (js '' kdov  '')))"
    using inst [of "js '' kdov  ''"] by (simp only:)
  have 2: "getStationByIcao ascii_toUpperCase (js '' kdov  '')
       = Some \<lparr>icao = js ''KDOV'', name = js ''Dover AFB, DE'', lat = 39.1295, lon = - 75.466\<rparr>"
    by (simp add: getStationByIcao_def trim_def js_def is_white_space_def METAR_STATIONS_def
        ascii_toUpperCase_def ascii_upper_unit_def)
  have 3: "getStationByIcao ascii_toUpperCase (js ''kxyz'') = None"
    by (simp add: getStationByIcao_def trim_def js_def is_white_space_def METAR_STATIONS_def
        ascii_toUpperCase_def ascii_upper_unit_def)
  show ?thesis
    using 1 2 3 ascii_toUpperCase_idem ascii_toUpperCase_trimmed by (simp only: simp_thms)
qed

section \<open>Properties of the forecast hook\<close>

text \<open>A trace that ends with a call resuming ends in a state that call left.\<close>

lemma run_events_last_settle:
  "run_events (es @ [Settle fetched]) pending s = Some s' \<Longrightarrow> \<exists>before. s' = call_finish fetched before"
proof (induction es arbitrary: pending s)
  case Nil
  then show ?case by (cases pending) auto
next
  case (Cons e es)
  show ?case
  proof (cases e)
    case Call
    with Cons.prems have "run_events (es @ [Settle fetched]) (Suc pending) (call_start s) = Some s'"
      by simp
    then show ?thesis by (rule Cons.IH)
  next
    case (Settle other)
    show ?thesis
    proof (cases pending)
      case 0
      with Settle Cons.prems show ?thesis by simp
    next
      case (Suc rest)
      with Settle Cons.prems
      have "run_events (es @ [Settle fetched]) rest (call_finish other s) = Some s'"
        by simp
      then show ?thesis by (rule Cons.IH)
    qed
  qed
qed

lemma call_finish_cases:
  "loading (call_finish fetched s) = False
   \<and> (case fetched of
         Inl e \<Rightarrow> data (call_finish fetched s) = None \<and> (\<exists>m. error (call_finish fetched s) = Some m)
       | Inr r \<Rightarrow>
           if \<not> ok r then
             data (call_finish fetched s) = None \<and> (\<exists>m. error (call_finish fetched s) = Some m)
           else
             (case json_result r of
                Inl e \<Rightarrow>
                  data (call_finish fetched s) = None \<and> (\<exists>m. error (call_finish fetched s) = Some m)
              | Inr json \<Rightarrow>
                  data (call_finish fetched s) = json \<and> error (call_finish fetched s) = error s))"
  by (simp add: call_finish_def try_block_def split: sum.split)

text \<open>
  C9, as amended. After every completed \<open>fetchForecast\<close> call, whatever other calls
  were pending or completed meanwhile, \<open>loading\<close> is false; on a rejected \<open>fetch\<close>,
  a non-ok HTTP status or a rejected \<open>r.json()\<close>, \<open>data\<close> is null and \<open>error\<close>
  is a non-null string; on success \<open>data\<close> holds the parsed response. When no other
  call overlaps the call (it starts in any state and runs to its end), \<open>data\<close> and
  \<open>error\<close> are moreover not both set, and on success \<open>error\<close> is null.
\<close>

theorem fetchForecast_completed:
  "(run_events (es @ [Settle fetched]) pending s = Some s' \<longrightarrow>
      loading s' = False
      \<and> ((\<exists>e. fetched = Inl e)
           \<or> (\<exists>r. fetched = Inr r \<and> (\<not> ok r \<or> (\<exists>e. json_result r = Inl e)))
          \<longrightarrow> data s' = None \<and> (\<exists>m. error s' = Some m))
      \<and> (\<forall>r json. fetched = Inr r \<and> ok r \<and> json_result r = Inr json \<longrightarrow> data s' = json))
   \<and> run_events [Call, Settle fetched] 0 s = Some (fetchForecast fetched s)
   \<and> (data (fetchForecast fetched s) = None \<or> error (fetchForecast fetched s) = None)
   \<and> (\<forall>r json. fetched = Inr r \<and> ok r \<and> json_result r = Inr json \<longrightarrow>
         data (fetchForecast fetched s) = json \<and> error (fetchForecast fetched s) = None)"
proof -
  have general: "loading s' = False
      \<and> ((\<exists>e. fetched = Inl e)
           \<or> (\<exists>r. fetched = Inr r \<and> (\<not> ok r \<or> (\<exists>e. json_result r = Inl e)))
          \<longrightarrow> data s' = None \<and> (\<exists>m. error s' = Some m))
      \<and> (\<forall>r json. fetched = Inr r \<and> ok r \<and> json_result r = Inr json \<longrightarrow> data s' = json)"
    if "run_events (es @ [Settle fetched]) pending s = Some s'"
  proof -
    from that obtain before where "s' = call_finish fetched before"
      using run_events_last_settle by blast
    then show ?thesis
      using call_finish_cases [of fetched before] by (auto split: sum.splits if_splits)
  qed
  have alone: "run_events [Call, Settle fetched] 0 s = Some (fetchForecast fetched s)
   \<and> (data (fetchForecast fetched s) = None \<or> error (fetchForecast fetched s) = None)
   \<and> (\<forall>r json. fetched = Inr r \<and> ok r \<and> json_result r = Inr json \<longrightarrow>
         data (fetchForecast fetched s) = json \<and> error (fetchForecast fetched s) = None)"
    by (auto simp: fetchForecast_def call_finish_def call_start_def try_block_def
        split: sum.split)
  from general alone show ?thesis by blast
qed

text \<open>
  Witness of C9: two overlapping calls from the initial state, one answered 200 with a
  body and one answered 500 with an empty body. Whichever resumes last, the final state is
  the one it leaves; a successful call alone, started in the state a failure left, clears
  the error.
\<close>

theorem fetchForecast_completed_witness:
  "run_events ([Call, Call, Settle sample_success] @ [Settle sample_failure]) 0 useForecast
     = Some \<lparr>data = None, error = Some (js ''HTTP 500''), loading = False\<rparr>
   \<and> run_events ([Call, Call, Settle sample_failure] @ [Settle sample_success]) 0 useForecast
     = Some \<lparr>data = Some sample_response, error = Some (js ''HTTP 500''), loading = False\<rparr>
   \<and> data (fetchForecast sample_success
        \<lparr>data = None, error = Some (js ''HTTP 500''), loading = False\<rparr>) = Some sample_response
   \<and> error (fetchForecast sample_success
        \<lparr>data = None, error = Some (js ''HTTP 500''), loading = False\<rparr>) = None"
proof -
  let ?failed = "\<lparr>data = None, error = Some (js ''HTTP 500''), loading = False\<rparr>
    :: ForecastResponse hook_state"
  let ?mixed = "\<lparr>data = Some sample_response, error = Some (js ''HTTP 500''), loading = False\<rparr>"
  have digits: "digit_string 500 = js ''500''"
    by (simp add: js_def)
  have a: "run_events ([Call, Call, Settle sample_success] @ [Settle sample_failure]) 0 useForecast
      = Some ?failed"
    by (simp add: call_finish_def call_start_def try_block_def useForecast_def
        sample_success_def sample_failure_def digits js_def)
  have b: "run_events ([Call, Call, Settle sample_failure] @ [Settle sample_success]) 0 useForecast
      = Some ?mixed"
    by (simp add: call_finish_def call_start_def try_block_def useForecast_def
        sample_success_def sample_failure_def digits js_def)
  note at_failure = fetchForecast_completed
    [of "[Call, Call, Settle sample_success]" sample_failure 0 useForecast ?failed]
  note at_success = fetchForecast_completed
    [of "[Call, Call, Settle sample_failure]" sample_success 0 useForecast ?mixed]
  note alone = fetchForecast_completed [of _ sample_success _ ?failed]
  have "data ?failed = None \<and> loading ?failed = False"
    using at_failure a by (simp add: sample_failure_def)
  moreover have "data ?mixed = Some sample_response \<and> loading ?mixed = False"
    using at_success b by (simp add: sample_success_def)
  moreover have "data (fetchForecast sample_success ?failed) = Some sample_response
      \<and> error (fetchForecast sample_success ?failed) = None"
    using alone by (simp add: sample_success_def)
  ultimately show ?thesis using a b by (simp only: simp_thms)
qed

text \<open>
  Counterexample to C9 as stated. Two calls overlap: the second to start fails first,
  then the first succeeds. After the successful call has completed, \<open>data\<close> holds its
  response and \<open>error\<close> still holds the message of the failed one.
\<close>

theorem fetchForecast_overlap_counterexample:
  "run_events
     [Call, Call,
      Settle (Inl (ErrorObject (js ''Failed to fetch''))),
      Settle (Inr \<lparr>ok = True, status = 200, text_result = Inr (js ''{}''),
                   json_result = Inr (Some \<lparr>possible = None, detailed = [], finalCall = None,
                     last_updated = None, runs_used = 0, ForecastResponse.lat = None,
                     ForecastResponse.lon = None,
                     message = Some (js ''No winter weather indicated'')\<rparr>)\<rparr>)]
     0 useForecast
   = Some \<lparr>data = Some \<lparr>possible = None, detailed = [], finalCall = None,
                     last_updated = None, runs_used = 0, ForecastResponse.lat = None,
                     ForecastResponse.lon = None,
                     message = Some (js ''No winter weather indicated'')\<rparr>,
           error = Some (js ''Failed to fetch''),
           loading = False\<rparr>"
  by (simp add: call_finish_def call_start_def try_block_def useForecast_def)

section \<open>Properties of the Tier Classifier\<close>



section \<open>Properties of the Run Cache\<close>

text \<open>
  C5. With a TTL of 60 minutes and no entry for the key, a call of \<open>get_or_fetch\<close> whose
  fetch succeeds asks the Fetcher and stores the result with its fetch time; the same call
  59 minutes later returns the stored data, asks nothing of the Fetcher and leaves the
  cache as it is; the same call 61 minutes after the first treats the entry as expired and
  asks the Fetcher again, replacing the entry when that fetch succeeds and keeping it when
  it fails. No call touches the entry of another key.
\<close>

theorem get_or_fetch_ttl_60:
  assumes "ttl c = 60" and "entries c key = None" and "fetch t key = Inr grid"
    and "get_or_fetch fetch t key c = (r0, c0)"
    and "get_or_fetch fetch (t + 59) key c0 = (r1, c1)"
    and "get_or_fetch fetch (t + 61) key c1 = (r2, c2)"
  shows "r0 = Inr grid \<and> downloads c0 = downloads c @ [key] \<and> entries c0 key = Some (grid, t)
     \<and> r1 = Inr grid \<and> c1 = c0
     \<and> r2 = fetch (t + 61) key \<and> downloads c2 = downloads c1 @ [key]
     \<and> entries c2 key =
         (case fetch (t + 61) key of
            Inr grid' \<Rightarrow> Some (grid', t + 61)
          | Inl failure \<Rightarrow> Some (grid, t))
     \<and> (\<forall>other. other \<noteq> key \<longrightarrow> entries c2 other = entries c other)"
proof -
  from assms(1-4) have c0: "c0 = c\<lparr>downloads := downloads c @ [key],
      entries := (entries c)(key \<mapsto> (grid, t))\<rparr>" and r0: "r0 = Inr grid"
    by (auto simp: get_or_fetch_def Let_def)
  from assms(1,5) c0 have c1: "c1 = c0" and r1: "r1 = Inr grid"
    by (auto simp: get_or_fetch_def Let_def)
  from assms(1,6) c0 c1 have 2: "r2 = fetch (t + 61) key" "downloads c2 = downloads c1 @ [key]"
    "entries c2 key =
         (case fetch (t + 61) key of
            Inr grid' \<Rightarrow> Some (grid', t + 61)
          | Inl failure \<Rightarrow> Some (grid, t))"
    "\<forall>other. other \<noteq> key \<longrightarrow> entries c2 other = entries c other"
    by (auto simp: get_or_fetch_def Let_def split: sum.splits)
  from c0 c1 r0 r1 2 show ?thesis by simp
qed

text \<open>
  Witness of C5: a cache that holds only a long-expired entry of another key, and an
  archive that answers 7 before minute 61 and 8 from then on. The call at minute 0 stores
  7, the call at minute 59 is served from the cache, the call at minute 61 downloads again
  and stores 8; the expired entry of the other key is still there.
\<close>

theorem get_or_fetch_ttl_60_witness:
  "ttl sample_cache = 60
   \<and> entries sample_cache sample_key = None
   \<and> sample_fetch 0 sample_key = Inr 7
   \<and> get_or_fetch sample_fetch 0 sample_key sample_cache
      = (Inr 7, \<lparr>entries = [sample_other_key \<mapsto> (3, - 1000), sample_key \<mapsto> (7, 0)],
                 ttl = 60, downloads = [sample_key]\<rparr>)
   \<and> get_or_fetch sample_fetch (0 + 59) sample_key
        \<lparr>entries = [sample_other_key \<mapsto> (3, - 1000), sample_key \<mapsto> (7, 0)],
          ttl = 60, downloads = [sample_key]\<rparr>
      = (Inr 7, \<lparr>entries = [sample_other_key \<mapsto> (3, - 1000), sample_key \<mapsto> (7, 0)],
                 ttl = 60, downloads = [sample_key]\<rparr>)
   \<and> get_or_fetch sample_fetch (0 + 61) sample_key
        \<lparr>entries = [sample_other_key \<mapsto> (3, - 1000), sample_key \<mapsto> (7, 0)],
          ttl = 60, downloads = [sample_key]\<rparr>
      = (Inr 8, \<lparr>entries = [sample_other_key \<mapsto> (3, - 1000), sample_key \<mapsto> (8, 61)],
                 ttl = 60, downloads = [sample_key, sample_key]\<rparr>)
   \<and> entries \<lparr>entries = [sample_other_key \<mapsto> (3, - 1000), sample_key \<mapsto> (8 :: nat, 61)],
                 ttl = 60, downloads = [sample_key, sample_key]\<rparr> sample_other_key
      = entries sample_cache sample_other_key"
proof -
  let ?cached = "\<lparr>entries = [sample_other_key \<mapsto> (3 :: nat, - 1000), sample_key \<mapsto> (7, 0)],
                 ttl = 60, downloads = [sample_key]\<rparr>"
  let ?renewed = "\<lparr>entries = [sample_other_key \<mapsto> (3 :: nat, - 1000), sample_key \<mapsto> (8, 61)],
                 ttl = 60, downloads = [sample_key, sample_key]\<rparr>"
  have distinct_keys: "sample_key \<noteq> sample_other_key"
    by (simp add: sample_key_def sample_other_key_def)
  have h1: "ttl sample_cache = 60"
    by (simp add: sample_cache_def)
  have h2: "entries sample_cache sample_key = None"
    using distinct_keys by (simp add: sample_cache_def)
  have h3: "sample_fetch 0 sample_key = Inr 7"
    by (simp add: sample_fetch_def)
  have h4: "get_or_fetch sample_fetch 0 sample_key sample_cache = (Inr 7, ?cached)"
    using distinct_keys by (simp add: get_or_fetch_def sample_cache_def sample_fetch_def)
  have h5: "get_or_fetch sample_fetch (0 + 59) sample_key ?cached = (Inr 7, ?cached)"
    by (simp add: get_or_fetch_def sample_fetch_def)
  have h6: "get_or_fetch sample_fetch (0 + 61) sample_key ?cached = (Inr 8, ?renewed)"
    by (simp add: get_or_fetch_def sample_fetch_def)
  have frame: "\<forall>other. other \<noteq> sample_key \<longrightarrow>
      entries ?renewed other = entries sample_cache other"
    using get_or_fetch_ttl_60 [OF h1 h2 h3 h4 h5 h6] by (elim conjE)
  have "sample_other_key \<noteq> sample_key"
    using distinct_keys by (rule not_sym)
  then have "entries ?renewed sample_other_key = entries sample_cache sample_other_key"
    by (rule frame [rule_format])
  with h1 h2 h3 h4 h5 h6 show ?thesis by (simp only: simp_thms)
qed

end
